theory Spec2Isabelle
  imports Complex_Main
begin

section \<open>Double pendulum simulator (AcceleratePhysicsLab)\<close>

text \<open>
  A shallow embedding of \<^verbatim>\<open>AcceleratePhysicsLab/app.py\<close>: the class
  \<^verbatim>\<open>DoublePendulumSimulator\<close> (\<^verbatim>\<open>derivatives\<close>, \<^verbatim>\<open>simulate\<close>, \<^verbatim>\<open>calculate_energy\<close>) and the two
  routes \<^verbatim>\<open>/api/simulate\<close> and \<^verbatim>\<open>/api/compare\<close>. The class of
  \<^verbatim>\<open>demo_physics.py\<close> has the same three method bodies.

  Python floats are idealised as real numbers: \<open>+\<close>, \<open>*\<close>, \<open>/\<close>, \<open>sin\<close> and \<open>cos\<close> are
  the exact operations, so rounding, overflow, infinities and NaN are outside the model.
  The one exception is the quotient that decides the number of samples: a count is not
  changed a little by rounding but by one, so that quotient is rounded as the machine
  rounds it. Every exception the code can raise is a value \<open>Inl e\<close> of a sum type.
\<close>

subsection \<open>Exceptions and the simulator object\<close>

datatype error = ValueError | ZeroDivisionError | IndexError | TypeError | AttributeError

text \<open>
  The fields set by \<^verbatim>\<open>__init__\<close>. The constructor's keyword defaults are
  \<open>m1 = m2 = L1 = L2 = 1.0\<close> and \<open>g = 9.81\<close>; an argument that the caller leaves out is
  \<open>None\<close> here.
\<close>

record DoublePendulumSimulator =
  m1 :: real
  m2 :: real
  L1 :: real
  L2 :: real
  g :: real

definition init :: "real option \<Rightarrow> real option \<Rightarrow> real option \<Rightarrow> real option \<Rightarrow> real option
    \<Rightarrow> DoublePendulumSimulator" where
  "init a_m1 a_m2 a_L1 a_L2 a_g =
     \<lparr>m1 = (case a_m1 of None \<Rightarrow> 1 | Some v \<Rightarrow> v),
      m2 = (case a_m2 of None \<Rightarrow> 1 | Some v \<Rightarrow> v),
      L1 = (case a_L1 of None \<Rightarrow> 1 | Some v \<Rightarrow> v),
      L2 = (case a_L2 of None \<Rightarrow> 1 | Some v \<Rightarrow> v),
      g = (case a_g of None \<Rightarrow> 981 / 100 | Some v \<Rightarrow> v)\<rparr>"

subsection \<open>The derivative function\<close>

text \<open>The local constant \<^verbatim>\<open>epsilon = 1e-10\<close> of \<^verbatim>\<open>derivatives\<close>.\<close>

definition epsilon :: real where
  "epsilon = 1 / 10 ^ 10"

text \<open>
  The guard that \<^verbatim>\<open>derivatives\<close> applies to \<^verbatim>\<open>den1\<close> and then to \<^verbatim>\<open>den2\<close>:
  \<^verbatim>\<open>den = den if abs(den) > epsilon else epsilon * np.sign(den) if den != 0 else epsilon\<close>.
  Python's conditional expression nests to the right; \<^verbatim>\<open>np.sign\<close> is \<open>sgn\<close>.
\<close>

definition clamp :: "real \<Rightarrow> real" where
  "clamp den = (if \<bar>den\<bar> > epsilon then den
                else if den \<noteq> 0 then epsilon * sgn den else epsilon)"

text \<open>
  \<^verbatim>\<open>derivatives(self, state, t)\<close>. Unpacking \<^verbatim>\<open>state\<close> into four names raises
  \<^verbatim>\<open>ValueError\<close> unless it has exactly four elements. \<^verbatim>\<open>self.L2 / self.L1\<close> divides two
  Python numbers and raises \<^verbatim>\<open>ZeroDivisionError\<close> when \<^verbatim>\<open>L1\<close> is zero; it is evaluated after
  \<^verbatim>\<open>den1\<close> and before the guard.
\<close>

fun derivatives :: "DoublePendulumSimulator \<Rightarrow> real list \<Rightarrow> real \<Rightarrow> error + real list" where
  "derivatives self [theta1, omega1, theta2, omega2] t =
     (let delta = theta2 - theta1;
          den1 = (m1 self + m2 self) * L1 self - m2 self * L1 self * (cos delta)\<^sup>2
      in if L1 self = 0 then Inl ZeroDivisionError
         else
           let den2 = (L2 self / L1 self) * den1;
               den1 = clamp den1;
               den2 = clamp den2;
               num1a = - m2 self * L1 self * omega1\<^sup>2 * sin delta * cos delta;
               num1b = - m2 self * g self * sin theta2 * cos delta;
               num1c = - m2 self * L2 self * omega2\<^sup>2 * sin delta;
               num1d = - (m1 self + m2 self) * g self * sin theta1;
               alpha1 = (num1a + num1b + num1c + num1d) / den1;
               num2a = m2 self * L2 self * omega2\<^sup>2 * sin delta * cos delta;
               num2b = (m1 self + m2 self) * g self * sin theta1 * cos delta;
               num2c = (m1 self + m2 self) * L1 self * omega1\<^sup>2 * sin delta;
               num2d = - (m1 self + m2 self) * g self * sin theta2;
               alpha2 = (num2a + num2b + num2c + num2d) / den2
           in Inr [omega1, alpha1, omega2, alpha2])"
| "derivatives self _ t = Inl ValueError"

subsection \<open>Sequencing of calls that may raise\<close>

text \<open>An exception raised by a call ends the enclosing function with that exception.\<close>

definition and_then :: "error + 'a \<Rightarrow> ('a \<Rightarrow> error + 'b) \<Rightarrow> error + 'b" where
  "and_then r k = (case r of Inl e \<Rightarrow> Inl e | Inr v \<Rightarrow> k v)"

subsection \<open>The numpy operations the simulator uses\<close>

text \<open>
  The result of a float division is the exact quotient rounded to the nearest double:
  53 significant bits, ties to the even significand. The exponent is not bounded here
  (no overflow, no underflow).
\<close>

definition round_half_even :: "real \<Rightarrow> int" where
  "round_half_even r =
     (let f = \<lfloor>r\<rfloor>; d = r - of_int f
      in if d < 1 / 2 then f else if 1 / 2 < d then f + 1 else if even f then f else f + 1)"

definition float64 :: "real \<Rightarrow> real" where
  "float64 x =
     (if x = 0 then 0
      else let e = \<lfloor>log 2 \<bar>x\<bar>\<rfloor>; ulp = 2 powr (of_int e - 52)
           in of_int (round_half_even (x / ulp)) * ulp)"

text \<open>
  \<^verbatim>\<open>np.arange(start, stop, step)\<close> on Python numbers. The length is the ceiling of the
  float quotient \<^verbatim>\<open>(stop - start) / step\<close>, and the array is empty when that is not
  positive; the division raises \<^verbatim>\<open>ZeroDivisionError\<close> for a zero step. The values are
  \<open>start + i * step\<close>. The simulator calls it with \<open>start = 0\<close> only, where the difference
  \<open>stop - start\<close> is exact.
\<close>

definition arange :: "real \<Rightarrow> real \<Rightarrow> real \<Rightarrow> error + real list" where
  "arange start stop step =
     (if step = 0 then Inl ZeroDivisionError
      else Inr (map (\<lambda>i. start + real i * step)
                  [0..<nat \<lceil>float64 ((stop - start) / step)\<rceil>]))"

text \<open>
  A two-dimensional array is the list of its rows. \<^verbatim>\<open>a[:, k]\<close> raises \<^verbatim>\<open>IndexError\<close> when
  the array has no column \<open>k\<close>.
\<close>

definition column :: "real list list \<Rightarrow> nat \<Rightarrow> error + real list" where
  "column a k = (if \<forall>row \<in> set a. k < length row then Inr (map (\<lambda>row. row ! k) a)
                 else Inl IndexError)"

text \<open>
  Elementwise arithmetic on one-dimensional arrays. The simulator only combines columns of
  one array, which have the same length.
\<close>

definition smul :: "real \<Rightarrow> real list \<Rightarrow> real list" where
  "smul c xs = map (\<lambda>x. c * x) xs"

definition vadd :: "real list \<Rightarrow> real list \<Rightarrow> real list" where
  "vadd xs ys = map2 (\<lambda>x y. x + y) xs ys"

definition vsub :: "real list \<Rightarrow> real list \<Rightarrow> real list" where
  "vsub xs ys = map2 (\<lambda>x y. x - y) xs ys"

definition vmul :: "real list \<Rightarrow> real list \<Rightarrow> real list" where
  "vmul xs ys = map2 (\<lambda>x y. x * y) xs ys"

definition vsq :: "real list \<Rightarrow> real list" where
  "vsq xs = map (\<lambda>x. x\<^sup>2) xs"

definition vsin :: "real list \<Rightarrow> real list" where
  "vsin xs = map sin xs"

definition vcos :: "real list \<Rightarrow> real list" where
  "vcos xs = map cos xs"

subsection \<open>Energy\<close>

text \<open>\<^verbatim>\<open>calculate_energy(self, solution)\<close>, on the whole solution array at once.\<close>

definition calculate_energy :: "DoublePendulumSimulator \<Rightarrow> real list list \<Rightarrow> error + real list" where
  "calculate_energy self solution =
     and_then (column solution 0) (\<lambda>theta1.
     and_then (column solution 1) (\<lambda>omega1.
     and_then (column solution 2) (\<lambda>theta2.
     and_then (column solution 3) (\<lambda>omega2.
       let v1_sq = vsq (smul (L1 self) omega1);
           v2_sq = vadd (vadd (vsq (smul (L1 self) omega1)) (vsq (smul (L2 self) omega2)))
                     (vmul (vmul (smul (2 * L1 self * L2 self) omega1) omega2)
                        (vcos (vsub theta1 theta2)));
           T = vadd (smul (0.5 * m1 self) v1_sq) (smul (0.5 * m2 self) v2_sq);
           y1 = smul (- L1 self) (vcos theta1);
           y2 = vsub (smul (- L1 self) (vcos theta1)) (smul (L2 self) (vcos theta2));
           V = vadd (smul (m1 self * g self) y1) (smul (m2 self * g self) y2)
       in Inr (vadd T V)))))"

subsection \<open>The integration driver\<close>

text \<open>
  \<^verbatim>\<open>scipy.integrate.odeint(func, y0, t)\<close> is a library routine (LSODA); the simulator is
  modelled for an arbitrary solver of this type. It is given the derivative function, the
  initial state and the sample times, and returns an array with one state per row, or
  raises (also whatever \<^verbatim>\<open>func\<close> raises).
\<close>

type_synonym odeint =
  "(real list \<Rightarrow> real \<Rightarrow> error + real list) \<Rightarrow> real list \<Rightarrow> real list \<Rightarrow> error + real list list"

text \<open>
  The dictionary returned by \<^verbatim>\<open>simulate\<close>; field \<open>r_k\<close> is its key \<^verbatim>\<open>'k'\<close>.
\<close>

record results =
  r_time :: "real list"
  r_theta1 :: "real list"
  r_theta2 :: "real list"
  r_x1 :: "real list"
  r_y1 :: "real list"
  r_x2 :: "real list"
  r_y2 :: "real list"
  r_energy :: "real list"
  r_dt :: real
  r_L1 :: real
  r_L2 :: real

text \<open>
  \<^verbatim>\<open>simulate(self, initial_state, duration, dt)\<close>. The method checks none of its
  arguments. Both routes pass \<^verbatim>\<open>dt\<close> explicitly (its default is \<open>0.01\<close>).
\<close>

definition simulate ::
  "odeint \<Rightarrow> DoublePendulumSimulator \<Rightarrow> real list \<Rightarrow> real \<Rightarrow> real \<Rightarrow> error + results" where
  "simulate odeint self initial_state duration dt =
     and_then (arange 0 duration dt) (\<lambda>t.
     and_then (odeint (derivatives self) initial_state t) (\<lambda>solution.
     and_then (column solution 0) (\<lambda>theta1.
     and_then (column solution 2) (\<lambda>theta2.
       let x1 = smul (L1 self) (vsin theta1);
           y1 = smul (- L1 self) (vcos theta1);
           x2 = vadd x1 (smul (L2 self) (vsin theta2));
           y2 = vsub y1 (smul (L2 self) (vcos theta2))
       in and_then (calculate_energy self solution) (\<lambda>energy.
            Inr \<lparr>r_time = t, r_theta1 = theta1, r_theta2 = theta2,
                 r_x1 = x1, r_y1 = y1, r_x2 = x2, r_y2 = y2,
                 r_energy = energy, r_dt = dt, r_L1 = L1 self, r_L2 = L2 self\<rparr>)))))"

subsection \<open>The routes\<close>

text \<open>
  A value of the request's JSON object, as \<^verbatim>\<open>float()\<close> sees it: \<open>JFloat r\<close> is any value
  that \<^verbatim>\<open>float()\<close> converts to \<open>r\<close>, \<open>JBadString\<close> a string it rejects with \<^verbatim>\<open>ValueError\<close>,
  \<open>JNonNumeric\<close> a value (null, a list, an object) it rejects with \<^verbatim>\<open>TypeError\<close>.
  \<^verbatim>\<open>request.get_json()\<close> yields an object, or something without \<^verbatim>\<open>.get\<close>.
\<close>

datatype jvalue = JFloat real | JBadString | JNonNumeric

datatype body = Object "string \<Rightarrow> jvalue option" | NoObject

fun py_float :: "jvalue \<Rightarrow> error + real" where
  "py_float (JFloat r) = Inr r"
| "py_float JBadString = Inl ValueError"
| "py_float JNonNumeric = Inl TypeError"

definition get :: "(string \<Rightarrow> jvalue option) \<Rightarrow> string \<Rightarrow> jvalue \<Rightarrow> jvalue" where
  "get data key dflt = (case data key of None \<Rightarrow> dflt | Some v \<Rightarrow> v)"

definition radians :: "real \<Rightarrow> real" where
  "radians x = x * (pi / 180)"

definition degrees :: "real \<Rightarrow> real" where
  "degrees x = x * (180 / pi)"

text \<open>
  A route answers with status 200 and a payload, or, from its \<^verbatim>\<open>except Exception\<close>
  handler, with status 400 and the exception.
\<close>

datatype 'a response = Ok200 'a | Err400 error

definition respond :: "error + 'a \<Rightarrow> 'a response" where
  "respond r = (case r of Inl e \<Rightarrow> Err400 e | Inr v \<Rightarrow> Ok200 v)"

text \<open>The route \<^verbatim>\<open>/api/simulate\<close> (the function \<^verbatim>\<open>simulate()\<close> of the module).\<close>

definition simulate_route :: "odeint \<Rightarrow> body \<Rightarrow> results response" where
  "simulate_route odeint request =
     respond (case request of NoObject \<Rightarrow> Inl AttributeError | Object data \<Rightarrow>
       and_then (py_float (get data ''theta1'' (JFloat 90))) (\<lambda>theta1_deg.
       and_then (py_float (get data ''theta2'' (JFloat 90))) (\<lambda>theta2_deg.
       and_then (py_float (get data ''omega1'' (JFloat 0))) (\<lambda>omega1.
       and_then (py_float (get data ''omega2'' (JFloat 0))) (\<lambda>omega2.
       and_then (py_float (get data ''m1'' (JFloat 1))) (\<lambda>v_m1.
       and_then (py_float (get data ''m2'' (JFloat 1))) (\<lambda>v_m2.
       and_then (py_float (get data ''L1'' (JFloat 1))) (\<lambda>v_L1.
       and_then (py_float (get data ''L2'' (JFloat 1))) (\<lambda>v_L2.
       and_then (py_float (get data ''duration'' (JFloat 10))) (\<lambda>duration.
       and_then (py_float (get data ''dt'' (JFloat 0.01))) (\<lambda>dt.
         let simulator = init (Some v_m1) (Some v_m2) (Some v_L1) (Some v_L2) None;
             initial_state = [radians theta1_deg, omega1, radians theta2_deg, omega2]
         in simulate odeint simulator initial_state duration dt)))))))))))"

text \<open>
  The route \<^verbatim>\<open>/api/compare\<close>. One entry of its \<^verbatim>\<open>simulations\<close> list has the keys
  \<^verbatim>\<open>'id'\<close>, \<^verbatim>\<open>'delta'\<close> and \<^verbatim>\<open>'data'\<close>. The loop runs over
  \<^verbatim>\<open>enumerate([0, perturbation, -perturbation])\<close>; an exception in one run ends the loop.
\<close>

record simulation =
  sim_id :: nat
  sim_delta :: real
  sim_data :: results

fun run_simulations :: "odeint \<Rightarrow> DoublePendulumSimulator \<Rightarrow> real \<Rightarrow> real \<Rightarrow> real \<Rightarrow> real
    \<Rightarrow> nat \<Rightarrow> real list \<Rightarrow> error + simulation list" where
  "run_simulations odeint simulator base_theta1 base_theta2 duration dt i [] = Inr []"
| "run_simulations odeint simulator base_theta1 base_theta2 duration dt i (delta # deltas) =
     and_then (simulate odeint simulator [base_theta1 + delta, 0, base_theta2, 0] duration dt)
       (\<lambda>results.
     and_then (run_simulations odeint simulator base_theta1 base_theta2 duration dt (Suc i) deltas)
       (\<lambda>simulations.
         Inr (\<lparr>sim_id = i, sim_delta = degrees delta, sim_data = results\<rparr> # simulations)))"

definition compare_simulations :: "odeint \<Rightarrow> body \<Rightarrow> simulation list response" where
  "compare_simulations odeint request =
     respond (case request of NoObject \<Rightarrow> Inl AttributeError | Object data \<Rightarrow>
       and_then (py_float (get data ''theta1'' (JFloat 90))) (\<lambda>theta1_deg.
       and_then (py_float (get data ''theta2'' (JFloat 90))) (\<lambda>theta2_deg.
       and_then (py_float (get data ''perturbation'' (JFloat 0.01))) (\<lambda>perturbation_deg.
       and_then (py_float (get data ''m1'' (JFloat 1))) (\<lambda>v_m1.
       and_then (py_float (get data ''m2'' (JFloat 1))) (\<lambda>v_m2.
       and_then (py_float (get data ''L1'' (JFloat 1))) (\<lambda>v_L1.
       and_then (py_float (get data ''L2'' (JFloat 1))) (\<lambda>v_L2.
       and_then (py_float (get data ''duration'' (JFloat 10))) (\<lambda>duration.
       and_then (py_float (get data ''dt'' (JFloat 0.01))) (\<lambda>dt.
         let base_theta1 = radians theta1_deg;
             base_theta2 = radians theta2_deg;
             perturbation = radians perturbation_deg;
             simulator = init (Some v_m1) (Some v_m2) (Some v_L1) (Some v_L2) None
         in run_simulations odeint simulator base_theta1 base_theta2 duration dt 0
              [0, perturbation, - perturbation]))))))))))"

subsection \<open>A fixed-step solver\<close>

text \<open>
  The explicit Euler method on the sample times, as one solver of the type \<open>odeint\<close>:
  the first row is the initial state, and each further row adds the step times the
  derivative at the previous row. It stands for the library routine wherever a property
  is evaluated on concrete numbers.
\<close>

fun euler_rows :: "(real list \<Rightarrow> real \<Rightarrow> error + real list) \<Rightarrow> real list \<Rightarrow> real \<Rightarrow> real list
    \<Rightarrow> error + real list list" where
  "euler_rows func y t0 [] = Inr []"
| "euler_rows func y t0 (t1 # ts) =
     and_then (func y t0) (\<lambda>dydt.
       let y' = map2 (\<lambda>a b. a + (t1 - t0) * b) y dydt
       in and_then (euler_rows func y' t1 ts) (\<lambda>rows. Inr (y' # rows)))"

fun euler :: odeint where
  "euler func y0 [] = Inr []"
| "euler func y0 (t0 # ts) = and_then (euler_rows func y0 t0 ts) (\<lambda>rows. Inr (y0 # rows))"

subsection \<open>What a property may assume of the solver\<close>

text \<open>The solver returns one row for each requested sample time.\<close>

definition one_row_per_time :: "odeint \<Rightarrow> bool" where
  "one_row_per_time odeint \<longleftrightarrow>
     (\<forall>func y0 t solution. odeint func y0 t = Inr solution \<longrightarrow> length solution = length t)"

text \<open>Started where the derivative vanishes at all times, the solver stays there.\<close>

definition keeps_rest :: "odeint \<Rightarrow> bool" where
  "keeps_rest odeint \<longleftrightarrow>
     (\<forall>func y0 t solution.
        (\<forall>s. func y0 s = Inr (map (\<lambda>_. 0) y0)) \<longrightarrow> odeint func y0 t = Inr solution \<longrightarrow>
        (\<forall>row \<in> set solution. row = y0))"

text \<open>
  For an odd derivative function, the solver maps the negated initial state to the negated
  solution (and raises from the one exactly when it raises from the other).
\<close>

definition mirrors :: "odeint \<Rightarrow> bool" where
  "mirrors odeint \<longleftrightarrow>
     (\<forall>func y0 t.
        (\<forall>y s. func (map uminus y) s = map_sum id (map uminus) (func y s)) \<longrightarrow>
        odeint func (map uminus y0) t = map_sum id (map (map uminus)) (odeint func y0 t))"

text \<open>The result of \<^verbatim>\<open>simulate\<close> with the angles and the horizontal positions negated.\<close>

definition mirror :: "results \<Rightarrow> results" where
  "mirror r = r\<lparr>r_theta1 := map uminus (r_theta1 r), r_theta2 := map uminus (r_theta2 r),
                r_x1 := map uminus (r_x1 r), r_x2 := map uminus (r_x2 r)\<rparr>"

section \<open>Properties of the derivative function\<close>

lemma epsilon_pos: "0 < epsilon"
  by (simp add: epsilon_def)

lemma clamp_abs_ge: "epsilon \<le> \<bar>clamp den\<bar>"
  using epsilon_pos by (simp add: clamp_def abs_mult sgn_if)

lemma clamp_nonzero: "clamp den \<noteq> 0"
  using clamp_abs_ge [of den] epsilon_pos by auto

lemma clamp_unchanged: "epsilon < \<bar>den\<bar> \<Longrightarrow> clamp den = den"
  by (simp add: clamp_def)

lemma derivatives_unfold:
  assumes "L1 self \<noteq> 0"
    and "delta = theta2 - theta1"
    and "den1 = (m1 self + m2 self) * L1 self - m2 self * L1 self * (cos delta)\<^sup>2"
    and "den2 = (L2 self / L1 self) * den1"
  shows "derivatives self [theta1, omega1, theta2, omega2] t =
           Inr [omega1,
                (- m2 self * L1 self * omega1\<^sup>2 * sin delta * cos delta
                 - m2 self * g self * sin theta2 * cos delta
                 - m2 self * L2 self * omega2\<^sup>2 * sin delta
                 - (m1 self + m2 self) * g self * sin theta1) / clamp den1,
                omega2,
                (m2 self * L2 self * omega2\<^sup>2 * sin delta * cos delta
                 + (m1 self + m2 self) * g self * sin theta1 * cos delta
                 + (m1 self + m2 self) * L1 self * omega1\<^sup>2 * sin delta
                 - (m1 self + m2 self) * g self * sin theta2) / clamp den2]"
proof -
  have n1: "- m2 self * L1 self * omega1\<^sup>2 * sin delta * cos delta
            + - m2 self * g self * sin theta2 * cos delta
            + - m2 self * L2 self * omega2\<^sup>2 * sin delta
            + - (m1 self + m2 self) * g self * sin theta1
          = - m2 self * L1 self * omega1\<^sup>2 * sin delta * cos delta
                 - m2 self * g self * sin theta2 * cos delta
                 - m2 self * L2 self * omega2\<^sup>2 * sin delta
                 - (m1 self + m2 self) * g self * sin theta1"
    by (simp add: algebra_simps)
  have n2: "m2 self * L2 self * omega2\<^sup>2 * sin delta * cos delta
                 + (m1 self + m2 self) * g self * sin theta1 * cos delta
                 + (m1 self + m2 self) * L1 self * omega1\<^sup>2 * sin delta
                 + - (m1 self + m2 self) * g self * sin theta2
          = m2 self * L2 self * omega2\<^sup>2 * sin delta * cos delta
                 + (m1 self + m2 self) * g self * sin theta1 * cos delta
                 + (m1 self + m2 self) * L1 self * omega1\<^sup>2 * sin delta
                 - (m1 self + m2 self) * g self * sin theta2"
    by (simp add: algebra_simps)
  show ?thesis
    unfolding derivatives.simps Let_def assms(2-4) [symmetric] using assms(1) n1 n2
    by (simp only: if_False)
qed


text \<open>
  C1. For every state \<open>[theta1, omega1, theta2, omega2]\<close> and positive \<open>m1\<close>, \<open>m2\<close>, \<open>L1\<close>,
  \<open>L2\<close>, \<open>g\<close>, with \<open>delta = theta2 - theta1\<close>,
  \<open>den1 = (m1 + m2) * L1 - m2 * L1 * cos(delta)^2\<close> and \<open>den2 = (L2 / L1) * den1\<close>, the derivative
  function returns \<open>[omega1, alpha1, omega2, alpha2]\<close> with the two accelerations given by the
  equations of motion over \<open>den1\<close> and \<open>den2\<close>, whenever both denominators exceed the
  threshold \<open>1e-10\<close> in absolute value.
\<close>

theorem derivatives_equations:
  assumes "0 < m1 self" "0 < m2 self" "0 < L1 self" "0 < L2 self" "0 < g self"
    and "delta = theta2 - theta1"
    and "den1 = (m1 self + m2 self) * L1 self - m2 self * L1 self * (cos delta)\<^sup>2"
    and "den2 = (L2 self / L1 self) * den1"
    and "epsilon < \<bar>den1\<bar>" "epsilon < \<bar>den2\<bar>"
  shows "derivatives self [theta1, omega1, theta2, omega2] t =
           Inr [omega1,
                (- m2 self * L1 self * omega1\<^sup>2 * sin delta * cos delta
                 - m2 self * g self * sin theta2 * cos delta
                 - m2 self * L2 self * omega2\<^sup>2 * sin delta
                 - (m1 self + m2 self) * g self * sin theta1) / den1,
                omega2,
                (m2 self * L2 self * omega2\<^sup>2 * sin delta * cos delta
                 + (m1 self + m2 self) * g self * sin theta1 * cos delta
                 + (m1 self + m2 self) * L1 self * omega1\<^sup>2 * sin delta
                 - (m1 self + m2 self) * g self * sin theta2) / den2]"
proof -
  have nz: "L1 self \<noteq> 0"
    using assms(3) by simp
  show ?thesis
    using derivatives_unfold [OF nz assms(6) assms(7) assms(8), of omega1 omega2 t]
      clamp_unchanged [OF assms(9)] clamp_unchanged [OF assms(10)]
    by (simp only:)
qed

theorem derivatives_equations_witness:
  "derivatives \<lparr>m1 = 1, m2 = 1, L1 = 1, L2 = 1, g = 981 / 100\<rparr> [0, 0, 0, 0] 0 = Inr [0, 0, 0, 0]"
  using derivatives_equations [of "\<lparr>m1 = 1, m2 = 1, L1 = 1, L2 = 1, g = 981 / 100\<rparr>" 0 0 0 1 1 0 0 0]
  by (simp add: epsilon_def)

text \<open>
  C2, as the code has it. For every state of four numbers and all parameters with
  \<open>L1\<close> other than zero, each of the two denominators \<open>den1\<close> and \<open>den2\<close> is guarded before
  its division: above \<open>1e-10\<close> in absolute value it is used unchanged, nonzero and at most
  \<open>1e-10\<close> in absolute value it becomes \<open>1e-10\<close> times its sign, and zero becomes \<open>+1e-10\<close>.
  The guarded value is at least \<open>1e-10\<close> in absolute value, so neither of these two
  divisions is a division by zero: the function returns the two quotients over the
  guarded denominators.
\<close>

theorem denominators_clamped:
  "epsilon = 1 / 10 ^ 10
   \<and> (epsilon < \<bar>den\<bar> \<longrightarrow> clamp den = den)
   \<and> (den \<noteq> 0 \<and> \<bar>den\<bar> \<le> epsilon \<longrightarrow> clamp den = epsilon * sgn den)
   \<and> (den = 0 \<longrightarrow> clamp den = epsilon)
   \<and> epsilon \<le> \<bar>clamp den\<bar> \<and> clamp den \<noteq> 0
   \<and> (L1 self \<noteq> 0 \<longrightarrow> derivatives self [theta1, omega1, theta2, omega2] t =
       (let delta = theta2 - theta1;
            den1 = (m1 self + m2 self) * L1 self - m2 self * L1 self * (cos delta)\<^sup>2;
            den2 = (L2 self / L1 self) * den1
        in Inr [omega1,
                (- m2 self * L1 self * omega1\<^sup>2 * sin delta * cos delta
                 - m2 self * g self * sin theta2 * cos delta
                 - m2 self * L2 self * omega2\<^sup>2 * sin delta
                 - (m1 self + m2 self) * g self * sin theta1) / clamp den1,
                omega2,
                (m2 self * L2 self * omega2\<^sup>2 * sin delta * cos delta
                 + (m1 self + m2 self) * g self * sin theta1 * cos delta
                 + (m1 self + m2 self) * L1 self * omega1\<^sup>2 * sin delta
                 - (m1 self + m2 self) * g self * sin theta2) / clamp den2]))"
proof -
  have a: "epsilon = 1 / 10 ^ 10"
    by (simp add: epsilon_def)
  have b: "epsilon < \<bar>den\<bar> \<longrightarrow> clamp den = den"
    by (simp add: clamp_def)
  have c: "den \<noteq> 0 \<and> \<bar>den\<bar> \<le> epsilon \<longrightarrow> clamp den = epsilon * sgn den"
    by (simp add: clamp_def)
  have d: "den = 0 \<longrightarrow> clamp den = epsilon"
    using epsilon_pos by (simp add: clamp_def)
  show ?thesis
    unfolding Let_def
    using a b c d clamp_abs_ge [of den] clamp_nonzero [of den]
      derivatives_unfold [where self = self and ?theta1.0 = theta1 and ?theta2.0 = theta2
        and ?omega1.0 = omega1 and ?omega2.0 = omega2 and t = t, OF _ refl refl refl]
    by blast
qed

theorem denominators_clamped_witness:
  "clamp 0 = 1 / 10 ^ 10 \<and> clamp 1 = 1 \<and> clamp (- (1 / 10 ^ 11)) = - (1 / 10 ^ 10)
   \<and> derivatives \<lparr>m1 = 1, m2 = 1, L1 = 1, L2 = 1, g = 981 / 100\<rparr> [0, 0, 0, 0] 0 = Inr [0, 0, 0, 0]"
  using denominators_clamped [of 0 "\<lparr>m1 = 1, m2 = 1, L1 = 1, L2 = 1, g = 981 / 100\<rparr>" 0 0 0 0 0]
    denominators_clamped [of 1] denominators_clamped [of "- (1 / 10 ^ 11)"]
  by (simp add: epsilon_def)

text \<open>
  C2 as stated covers every input. With \<open>L1 = 0\<close> the first denominator is exactly zero
  at every state, and it is never replaced: the function divides \<open>L2\<close> by \<open>L1\<close> before
  the guard and raises \<^verbatim>\<open>ZeroDivisionError\<close>.
\<close>

theorem unguarded_division_counterexample:
  "(m1 \<lparr>m1 = 1, m2 = 1, L1 = 0, L2 = 1, g = 981 / 100\<rparr>
      + m2 \<lparr>m1 = 1, m2 = 1, L1 = 0, L2 = 1, g = 981 / 100\<rparr>)
     * L1 \<lparr>m1 = 1, m2 = 1, L1 = 0, L2 = 1, g = 981 / 100\<rparr>
     - m2 \<lparr>m1 = 1, m2 = 1, L1 = 0, L2 = 1, g = 981 / 100\<rparr>
       * L1 \<lparr>m1 = 1, m2 = 1, L1 = 0, L2 = 1, g = 981 / 100\<rparr> * (cos (0 - 0))\<^sup>2 = 0
   \<and> derivatives \<lparr>m1 = 1, m2 = 1, L1 = 0, L2 = 1, g = 981 / 100\<rparr> [0, 0, 0, 0] 0
       = Inl ZeroDivisionError"
  by (simp add: Let_def)

section \<open>The integration driver\<close>

lemma and_then_Inr [simp]: "and_then (Inr v) k = k v"
  by (simp add: and_then_def)

lemma and_then_Inl [simp]: "and_then (Inl e) k = Inl e"
  by (simp add: and_then_def)

lemma and_then_eq_Inr: "and_then r k = Inr v \<longleftrightarrow> (\<exists>u. r = Inr u \<and> k u = Inr v)"
  by (cases r) simp_all

lemmas vec_defs = smul_def vadd_def vsub_def vmul_def vsq_def vsin_def vcos_def

lemma column_length: "column a k = Inr c \<Longrightarrow> length c = length a"
  by (auto simp: column_def split: if_splits)

lemma calculate_energy_length:
  assumes "calculate_energy self solution = Inr energy"
  shows "length energy = length solution"
proof -
  from assms obtain theta1 omega1 theta2 omega2 where
    c: "column solution 0 = Inr theta1" "column solution 1 = Inr omega1"
       "column solution 2 = Inr theta2" "column solution 3 = Inr omega2"
    by (auto simp: calculate_energy_def and_then_eq_Inr)
  from c have l: "length theta1 = length solution" "length omega1 = length solution"
    "length theta2 = length solution" "length omega2 = length solution"
    by (simp_all add: column_length)
  from assms show ?thesis
    unfolding calculate_energy_def c and_then_Inr Let_def vec_defs
    using l by auto
qed

lemma simulate_Inr:
  assumes "simulate odeint self initial_state duration dt = Inr r"
  obtains t solution theta1 theta2 energy where
    "arange 0 duration dt = Inr t"
    "odeint (derivatives self) initial_state t = Inr solution"
    "column solution 0 = Inr theta1"
    "column solution 2 = Inr theta2"
    "calculate_energy self solution = Inr energy"
    "r = \<lparr>r_time = t, r_theta1 = theta1, r_theta2 = theta2,
          r_x1 = smul (L1 self) (vsin theta1),
          r_y1 = smul (- L1 self) (vcos theta1),
          r_x2 = vadd (smul (L1 self) (vsin theta1)) (smul (L2 self) (vsin theta2)),
          r_y2 = vsub (smul (- L1 self) (vcos theta1)) (smul (L2 self) (vcos theta2)),
          r_energy = energy, r_dt = dt, r_L1 = L1 self, r_L2 = L2 self\<rparr>"
  using assms unfolding simulate_def Let_def and_then_eq_Inr by auto

subsection \<open>The rounded quotient\<close>

lemma round_half_even_ge_floor: "\<lfloor>r\<rfloor> \<le> round_half_even r"
  by (simp add: round_half_even_def Let_def)

lemma float64_eqI:
  assumes "2 powr of_int e \<le> \<bar>x\<bar>" "\<bar>x\<bar> < 2 powr (of_int e + 1)"
    and "round_half_even (x / 2 powr (of_int e - 52)) = n"
  shows "float64 x = of_int n * 2 powr (of_int e - 52)"
proof -
  have pos: "0 < \<bar>x\<bar>"
    using assms(1) powr_gt_zero [of 2 "of_int e"] by linarith
  then have nz: "x \<noteq> 0"
    by simp
  have "\<lfloor>log 2 \<bar>x\<bar>\<rfloor> = e"
    using assms(1,2) pos by (simp add: floor_log_eq_powr_iff)
  then show ?thesis
    using nz assms(3) by (simp add: float64_def Let_def)
qed

lemma float64_pos:
  assumes "0 < x"
  shows "0 < float64 x"
proof -
  define e where "e = \<lfloor>log 2 \<bar>x\<bar>\<rfloor>"
  define ulp :: real where "ulp = 2 powr (of_int e - 52)"
  have u: "0 < ulp"
    by (simp add: ulp_def)
  have "2 powr of_int e \<le> x"
    using assms e_def floor_log_eq_powr_iff [of x 2 e] by simp
  then have "2 powr of_int e / ulp \<le> x / ulp"
    using u by (simp add: divide_right_mono)
  moreover have "2 powr of_int e / ulp = 2 powr 52"
    unfolding ulp_def by (simp add: powr_diff)
  ultimately have "1 \<le> x / ulp"
    by simp
  then have "1 \<le> \<lfloor>x / ulp\<rfloor>"
    by simp
  then have "1 \<le> round_half_even (x / ulp)"
    using round_half_even_ge_floor [of "x / ulp"] by linarith
  then have "0 < of_int (round_half_even (x / ulp)) * ulp"
    using u by simp
  then show ?thesis
    using assms by (simp add: float64_def Let_def e_def ulp_def)
qed

lemma float64_3_2: "float64 (3 / 2) = 3 / 2"
proof -
  have r: "round_half_even ((3 / 2) / 2 powr (of_int 0 - 52)) = 6755399441055744"
    by (simp add: round_half_even_def powr_minus powr_numeral)
  have "float64 (3 / 2) = of_int 6755399441055744 * 2 powr (of_int 0 - 52)"
    by (rule float64_eqI [OF _ _ r]) simp_all
  then show ?thesis
    by (simp add: powr_minus powr_numeral)
qed

lemma float64_tenth_hundredth:
  "float64 ((3602879701896397 / 2 ^ 55) / (5764607523034235 / 2 ^ 59)) = 10"
proof -
  have r: "round_half_even (((3602879701896397 / 2 ^ 55) / (5764607523034235 / 2 ^ 59))
             / 2 powr (of_int 3 - 52)) = 5629499534213120"
    by (simp add: round_half_even_def powr_minus powr_numeral Let_def)
  have "float64 ((3602879701896397 / 2 ^ 55) / (5764607523034235 / 2 ^ 59))
          = of_int 5629499534213120 * 2 powr (of_int 3 - 52)"
    by (rule float64_eqI [OF _ _ r]) (simp_all add: powr_numeral)
  then show ?thesis
    by (simp add: powr_minus powr_numeral)
qed

lemma ceiling_tenth_hundredth:
  "\<lceil>(3602879701896397 / 2 ^ 55) / (5764607523034235 / 2 ^ 59) :: real\<rceil> = 11"
  by (simp add: ceiling_eq_iff)

lemma float64_seven_hundredths:
  "float64 ((1261007895663739 / 2 ^ 54) / (5764607523034235 / 2 ^ 59))
     = 7881299347898369 / 2 ^ 50"
proof -
  have r: "round_half_even (((1261007895663739 / 2 ^ 54) / (5764607523034235 / 2 ^ 59))
             / 2 powr (of_int 2 - 52)) = 7881299347898369"
    by (simp add: round_half_even_def powr_minus powr_numeral Let_def)
  have "float64 ((1261007895663739 / 2 ^ 54) / (5764607523034235 / 2 ^ 59))
          = of_int 7881299347898369 * 2 powr (of_int 2 - 52)"
    by (rule float64_eqI [OF _ _ r]) (simp_all add: powr_numeral)
  then show ?thesis
    by (simp add: powr_minus powr_numeral)
qed

subsection \<open>The sample times\<close>

lemma arange_length:
  "arange start stop step = Inr t \<Longrightarrow> length t = nat \<lceil>float64 ((stop - start) / step)\<rceil>"
  by (auto simp: arange_def split: if_splits)

text \<open>
  The number of samples follows the rounded quotient. For the doubles nearest to \<open>0.1\<close> and
  \<open>0.01\<close> the quotient rounds to \<open>10\<close>, which gives ten samples, although the exact quotient
  is above \<open>10\<close>; for the doubles nearest to \<open>0.07\<close> and \<open>0.01\<close> the quotient is above \<open>7\<close>,
  which gives eight samples.
\<close>

lemma arange_tenth_hundredth:
  "map_sum id length (arange 0 (3602879701896397 / 2 ^ 55) (5764607523034235 / 2 ^ 59)) = Inr 10"
  unfolding arange_def diff_zero float64_tenth_hundredth by simp

lemma arange_seven_hundredths:
  "map_sum id length (arange 0 (1261007895663739 / 2 ^ 54) (5764607523034235 / 2 ^ 59)) = Inr 8"
proof -
  have "\<lceil>7881299347898369 / 2 ^ 50 :: real\<rceil> = 8"
    by (simp add: ceiling_eq_iff)
  then show ?thesis
    unfolding arange_def diff_zero float64_seven_hundredths by simp
qed

lemma arange_nth:
  "arange start stop step = Inr t \<Longrightarrow> i < length t \<Longrightarrow> t ! i = start + real i * step"
  by (auto simp: arange_def split: if_splits)

text \<open>
  C4, as the code has it. For every duration \<open>D > 0\<close> and step \<open>dt > 0\<close>, the time
  sequence of the returned trajectory has length \<open>ceil(q)\<close>, where \<open>q\<close> is the float
  quotient \<open>D / dt\<close> (the exact quotient rounded to the nearest double); it is not empty,
  starts at \<open>0\<close>, has \<open>time[i] = i * dt\<close> and increases strictly with the constant step
  \<open>dt\<close>; when the solver returns one row per sample time, the sequences \<open>theta1\<close>,
  \<open>theta2\<close>, \<open>x1\<close>, \<open>y1\<close>, \<open>x2\<close>, \<open>y2\<close> and \<open>energy\<close> have that same length.
\<close>

theorem time_sequence_shape:
  assumes "0 < duration" "0 < dt" "one_row_per_time odeint"
    and "simulate odeint self initial_state duration dt = Inr r"
  shows "length (r_time r) = nat \<lceil>float64 (duration / dt)\<rceil>
     \<and> 0 < length (r_time r) \<and> r_time r ! 0 = 0
     \<and> (\<forall>i < length (r_time r). r_time r ! i = real i * dt)
     \<and> (\<forall>i. Suc i < length (r_time r) \<longrightarrow> r_time r ! i < r_time r ! Suc i
            \<and> r_time r ! Suc i - r_time r ! i = dt)
     \<and> length (r_theta1 r) = length (r_time r) \<and> length (r_theta2 r) = length (r_time r)
     \<and> length (r_x1 r) = length (r_time r) \<and> length (r_y1 r) = length (r_time r)
     \<and> length (r_x2 r) = length (r_time r) \<and> length (r_y2 r) = length (r_time r)
     \<and> length (r_energy r) = length (r_time r)"
proof -
  from assms(4) obtain t solution theta1 theta2 energy where
    t: "arange 0 duration dt = Inr t"
    and s: "odeint (derivatives self) initial_state t = Inr solution"
    and c0: "column solution 0 = Inr theta1"
    and c2: "column solution 2 = Inr theta2"
    and e: "calculate_energy self solution = Inr energy"
    and r: "r = \<lparr>r_time = t, r_theta1 = theta1, r_theta2 = theta2,
          r_x1 = smul (L1 self) (vsin theta1),
          r_y1 = smul (- L1 self) (vcos theta1),
          r_x2 = vadd (smul (L1 self) (vsin theta1)) (smul (L2 self) (vsin theta2)),
          r_y2 = vsub (smul (- L1 self) (vcos theta1)) (smul (L2 self) (vcos theta2)),
          r_energy = energy, r_dt = dt, r_L1 = L1 self, r_L2 = L2 self\<rparr>"
    by (rule simulate_Inr)
  have len: "length t = nat \<lceil>float64 (duration / dt)\<rceil>"
    using arange_length [OF t] by simp
  have "0 < duration / dt"
    using assms(1,2) by simp
  then have "0 < float64 (duration / dt)"
    by (rule float64_pos)
  then have pos: "0 < length t"
    using len by simp
  have nth: "t ! i = real i * dt" if "i < length t" for i
    using arange_nth [OF t that] by simp
  have step: "t ! i < t ! Suc i \<and> t ! Suc i - t ! i = dt" if "Suc i < length t" for i
    using nth [of i] nth [of "Suc i"] that assms(2) by (simp add: algebra_simps)
  have rows: "length solution = length t"
    using assms(3) s by (auto simp: one_row_per_time_def)
  have l1: "length theta1 = length t" and l2: "length theta2 = length t"
    using column_length [OF c0] column_length [OF c2] rows by simp_all
  have le: "length energy = length t"
    using calculate_energy_length [OF e] rows by simp
  show ?thesis
    unfolding r using len pos nth [OF pos] nth step l1 l2 le
    by (simp add: vec_defs)
qed


subsection \<open>The fixed-step solver, and a run from rest\<close>

lemma euler_rows_length:
  "euler_rows func y t0 ts = Inr rows \<Longrightarrow> length rows = length ts"
proof (induction ts arbitrary: y t0 rows)
  case Nil
  then show ?case by simp
next
  case (Cons t1 ts)
  then show ?case
    by (auto simp: and_then_eq_Inr Let_def)
qed

lemma euler_one_row_per_time: "one_row_per_time euler"
  unfolding one_row_per_time_def
proof (intro allI impI)
  fix func y0 t solution
  assume "euler func y0 t = Inr solution"
  then show "length solution = length t"
    by (cases t) (auto simp: and_then_eq_Inr dest: euler_rows_length)
qed

lemma derivatives_rest:
  "L1 self \<noteq> 0 \<Longrightarrow> derivatives self [0, 0, 0, 0] t = Inr [0, 0, 0, 0]"
  by (simp add: Let_def)

lemma arange_3_2: "arange 0 3 2 = Inr [0, 2]"
proof -
  have "[0..<2] = [0, Suc 0]"
    by (simp add: upt_rec)
  then show ?thesis
    by (simp add: arange_def float64_3_2)
qed

lemma euler_rest_3_2:
  "L1 self \<noteq> 0 \<Longrightarrow> euler (derivatives self) [0, 0, 0, 0] [0, 2] = Inr [[0, 0, 0, 0], [0, 0, 0, 0]]"
  by (simp add: derivatives_rest del: derivatives.simps)

lemma column_rest_2:
  "column [[0, 0, 0, 0], [0, 0, 0, 0]] 0 = Inr [0, 0]"
  "column [[0, 0, 0, 0], [0, 0, 0, 0]] 1 = Inr [0, 0]"
  "column [[0, 0, 0, 0], [0, 0, 0, 0]] 2 = Inr [0, 0]"
  "column [[0, 0, 0, 0], [0, 0, 0, 0]] 3 = Inr [0, 0]"
  by (simp_all add: column_def)

lemma simulate_rest_3_2:
  "simulate euler \<lparr>m1 = 1, m2 = 1, L1 = 1, L2 = 1, g = 981 / 100\<rparr> [0, 0, 0, 0] 3 2 =
     Inr \<lparr>r_time = [0, 2], r_theta1 = [0, 0], r_theta2 = [0, 0],
          r_x1 = [0, 0], r_y1 = [- 1, - 1], r_x2 = [0, 0], r_y2 = [- 2, - 2],
          r_energy = [- (2943 / 100), - (2943 / 100)], r_dt = 2, r_L1 = 1, r_L2 = 1\<rparr>"
proof -
  have e: "calculate_energy \<lparr>m1 = 1, m2 = 1, L1 = 1, L2 = 1, g = 981 / 100\<rparr>
             [[0, 0, 0, 0], [0, 0, 0, 0]] = Inr [- (2943 / 100), - (2943 / 100)]"
    unfolding calculate_energy_def column_rest_2 and_then_Inr
    by (simp add: vec_defs)
  have s: "euler (derivatives \<lparr>m1 = 1, m2 = 1, L1 = 1, L2 = 1, g = 981 / 100\<rparr>) [0, 0, 0, 0] [0, 2]
             = Inr [[0, 0, 0, 0], [0, 0, 0, 0]]"
    by (rule euler_rest_3_2) simp
  show ?thesis
    unfolding simulate_def arange_3_2 and_then_Inr s column_rest_2 e Let_def
    by (simp add: vec_defs)
qed

theorem time_sequence_shape_witness:
  "simulate euler \<lparr>m1 = 1, m2 = 1, L1 = 1, L2 = 1, g = 981 / 100\<rparr> [0, 0, 0, 0] 3 2 =
     Inr \<lparr>r_time = [0, 2], r_theta1 = [0, 0], r_theta2 = [0, 0],
          r_x1 = [0, 0], r_y1 = [- 1, - 1], r_x2 = [0, 0], r_y2 = [- 2, - 2],
          r_energy = [- (2943 / 100), - (2943 / 100)], r_dt = 2, r_L1 = 1, r_L2 = 1\<rparr>
   \<and> nat \<lceil>float64 (3 / 2)\<rceil> = 2"
  using time_sequence_shape [OF _ _ euler_one_row_per_time simulate_rest_3_2]
    simulate_rest_3_2
  by simp

text \<open>
  C4 as stated gives the length \<open>floor(D / dt)\<close>. With \<open>D = 3\<close> and \<open>dt = 2\<close> the
  sample times are \<open>0\<close> and \<open>2\<close>: two samples, where \<open>floor(3 / 2) = 1\<close>.
\<close>

theorem time_sequence_length_counterexample:
  "simulate euler \<lparr>m1 = 1, m2 = 1, L1 = 1, L2 = 1, g = 981 / 100\<rparr> [0, 0, 0, 0] 3 2 =
     Inr \<lparr>r_time = [0, 2], r_theta1 = [0, 0], r_theta2 = [0, 0],
          r_x1 = [0, 0], r_y1 = [- 1, - 1], r_x2 = [0, 0], r_y2 = [- 2, - 2],
          r_energy = [- (2943 / 100), - (2943 / 100)], r_dt = 2, r_L1 = 1, r_L2 = 1\<rparr>
   \<and> length [0, 2 :: real] \<noteq> nat \<lfloor>(3::real) / 2\<rfloor>"
  using simulate_rest_3_2 by simp

section \<open>Energy of the samples\<close>

lemma column_states:
  "column (map (\<lambda>(a, b, c, d). [a, b, c, d]) states) 0 = Inr (map (\<lambda>(a, b, c, d). a) states)"
  "column (map (\<lambda>(a, b, c, d). [a, b, c, d]) states) 1 = Inr (map (\<lambda>(a, b, c, d). b) states)"
  "column (map (\<lambda>(a, b, c, d). [a, b, c, d]) states) 2 = Inr (map (\<lambda>(a, b, c, d). c) states)"
  "column (map (\<lambda>(a, b, c, d). [a, b, c, d]) states) 3 = Inr (map (\<lambda>(a, b, c, d). d) states)"
  by (auto simp: column_def)

lemma calculate_energy_states:
  "calculate_energy self (map (\<lambda>(theta1, omega1, theta2, omega2). [theta1, omega1, theta2, omega2]) states) =
     Inr (map (\<lambda>(theta1, omega1, theta2, omega2).
        (0.5 * m1 self * (L1 self * omega1)\<^sup>2
         + 0.5 * m2 self * ((L1 self * omega1)\<^sup>2 + (L2 self * omega2)\<^sup>2
             + 2 * L1 self * L2 self * omega1 * omega2 * cos (theta1 - theta2)))
        + (m1 self * g self * (- L1 self * cos theta1)
           + m2 self * g self * (- L1 self * cos theta1 - L2 self * cos theta2))) states)"
  unfolding calculate_energy_def column_states and_then_Inr Let_def vec_defs
  by (simp add: zip_map_map zip_same_conv_map case_prod_unfold)

text \<open>
  C5. For an array of sampled states \<open>[theta1, omega1, theta2, omega2]\<close>, the energy
  computed for each sample is \<open>T + V\<close> with
  \<open>T = 0.5 * m1 * (L1 * omega1)^2 + 0.5 * m2 * ((L1 * omega1)^2 + (L2 * omega2)^2
  + 2 * L1 * L2 * omega1 * omega2 * cos(theta1 - theta2))\<close> and
  \<open>V = m1 * g * (-L1 * cos(theta1)) + m2 * g * (-L1 * cos(theta1) - L2 * cos(theta2))\<close>,
  and this is the energy sequence that \<^verbatim>\<open>simulate\<close> reports for the states the solver
  returned. It holds for every value of the parameters, positive or not.
\<close>

theorem energy_of_each_sample:
  "calculate_energy self
      (map (\<lambda>(theta1, omega1, theta2, omega2). [theta1, omega1, theta2, omega2]) states) =
     Inr (map (\<lambda>(theta1, omega1, theta2, omega2).
            let T = 0.5 * m1 self * (L1 self * omega1)\<^sup>2
                    + 0.5 * m2 self * ((L1 self * omega1)\<^sup>2 + (L2 self * omega2)\<^sup>2
                        + 2 * L1 self * L2 self * omega1 * omega2 * cos (theta1 - theta2));
                V = m1 self * g self * (- L1 self * cos theta1)
                    + m2 self * g self * (- L1 self * cos theta1 - L2 self * cos theta2)
            in T + V) states)
   \<and> (arange 0 duration dt = Inr t
        \<and> odeint (derivatives self) initial_state t =
            Inr (map (\<lambda>(theta1, omega1, theta2, omega2). [theta1, omega1, theta2, omega2]) states)
      \<longrightarrow> map_sum id r_energy (simulate odeint self initial_state duration dt) =
            Inr (map (\<lambda>(theta1, omega1, theta2, omega2).
            let T = 0.5 * m1 self * (L1 self * omega1)\<^sup>2
                    + 0.5 * m2 self * ((L1 self * omega1)\<^sup>2 + (L2 self * omega2)\<^sup>2
                        + 2 * L1 self * L2 self * omega1 * omega2 * cos (theta1 - theta2));
                V = m1 self * g self * (- L1 self * cos theta1)
                    + m2 self * g self * (- L1 self * cos theta1 - L2 self * cos theta2)
            in T + V) states))"
  unfolding Let_def
  by (simp add: calculate_energy_states simulate_def column_states Let_def)

theorem energy_of_each_sample_witness:
  "calculate_energy \<lparr>m1 = 1, m2 = 1, L1 = 1, L2 = 1, g = 981 / 100\<rparr> [[0, 0, 0, 0], [0, 1, 0, 2]]
     = Inr [- (2943 / 100), - (2443 / 100)]
   \<and> map_sum id r_energy
        (simulate euler \<lparr>m1 = 1, m2 = 1, L1 = 1, L2 = 1, g = 981 / 100\<rparr> [0, 0, 0, 0] 3 2)
     = Inr [- (2943 / 100), - (2943 / 100)]"
  using energy_of_each_sample [of "\<lparr>m1 = 1, m2 = 1, L1 = 1, L2 = 1, g = 981 / 100\<rparr>"
      "[(0, 0, 0, 0), (0, 1, 0, 2)]" 3 2 "[0, 2]" euler "[0, 0, 0, 0]"]
    energy_of_each_sample [of "\<lparr>m1 = 1, m2 = 1, L1 = 1, L2 = 1, g = 981 / 100\<rparr>"
      "[(0, 0, 0, 0), (0, 0, 0, 0)]" 3 2 "[0, 2]" euler "[0, 0, 0, 0]"]
    arange_3_2 euler_rest_3_2 [of "\<lparr>m1 = 1, m2 = 1, L1 = 1, L2 = 1, g = 981 / 100\<rparr>"]
  by (simp del: euler.simps derivatives.simps)


section \<open>Rest at the lower equilibrium\<close>

lemma euler_rows_rest:
  assumes "\<forall>s. func y0 s = Inr (map (\<lambda>_. 0) y0)"
  shows "euler_rows func y0 t0 ts = Inr (replicate (length ts) y0)"
proof (induction ts arbitrary: t0)
  case Nil
  then show ?case by simp
next
  case (Cons t1 ts)
  have "map2 (\<lambda>a b. a + (t1 - t0) * b) y0 (map (\<lambda>_. 0) y0) = y0"
    by (simp add: zip_map2 zip_same_conv_map map_idI)
  then show ?case
    using assms Cons.IH [of t1] by simp
qed

lemma euler_keeps_rest: "keeps_rest euler"
  unfolding keeps_rest_def
proof (intro allI impI)
  fix func :: "real list \<Rightarrow> real \<Rightarrow> error + real list" and y0 t solution
  assume f: "\<forall>s. func y0 s = Inr (map (\<lambda>_. 0) y0)" and e: "euler func y0 t = Inr solution"
  show "\<forall>row \<in> set solution. row = y0"
  proof (cases t)
    case Nil
    with e show ?thesis by simp
  next
    case (Cons t0 ts)
    have "euler_rows func y0 t0 ts = Inr (replicate (length ts) y0)"
      using f by (rule euler_rows_rest)
    with e Cons show ?thesis by auto
  qed
qed

text \<open>
  C6. For positive parameters the state \<open>[0, 0, 0, 0]\<close> is a fixed point: the derivative
  function returns the zero vector there. Hence, with a solver that stays where the
  derivative vanishes, a trajectory started at \<open>[0, 0, 0, 0]\<close> has \<open>theta1 = 0\<close> and
  \<open>theta2 = 0\<close> at every sample.
\<close>

theorem rest_is_fixed_point:
  assumes "0 < m1 self" "0 < m2 self" "0 < L1 self" "0 < L2 self" "0 < g self"
  shows "derivatives self [0, 0, 0, 0] t = Inr [0, 0, 0, 0]
     \<and> (keeps_rest odeint \<and> simulate odeint self [0, 0, 0, 0] duration dt = Inr r
          \<longrightarrow> (\<forall>x \<in> set (r_theta1 r). x = 0) \<and> (\<forall>x \<in> set (r_theta2 r). x = 0))"
proof -
  have nz: "L1 self \<noteq> 0"
    using assms(3) by simp
  have d: "derivatives self [0, 0, 0, 0] s = Inr [0, 0, 0, 0]" for s
    using nz by (rule derivatives_rest)
  have "(\<forall>x \<in> set (r_theta1 r). x = 0) \<and> (\<forall>x \<in> set (r_theta2 r). x = 0)"
    if k: "keeps_rest odeint" and sim: "simulate odeint self [0, 0, 0, 0] duration dt = Inr r"
  proof -
    from sim obtain ts solution theta1 theta2 where
      s: "odeint (derivatives self) [0, 0, 0, 0] ts = Inr solution"
      and c0: "column solution 0 = Inr theta1"
      and c2: "column solution 2 = Inr theta2"
      and r: "r_theta1 r = theta1" "r_theta2 r = theta2"
      by (rule simulate_Inr) simp
    have "(\<forall>s. derivatives self [0, 0, 0, 0] s = Inr (map (\<lambda>_. 0) [0, 0, 0, 0 :: real]))
        \<longrightarrow> odeint (derivatives self) [0, 0, 0, 0] ts = Inr solution
        \<longrightarrow> (\<forall>row \<in> set solution. row = [0, 0, 0, 0])"
      using k unfolding keeps_rest_def by blast
    then have rows: "row = [0, 0, 0, 0]" if "row \<in> set solution" for row
      using d s that by simp
    have t1: "theta1 = map (\<lambda>row. row ! 0) solution"
      and t2: "theta2 = map (\<lambda>row. row ! 2) solution"
      using c0 c2 by (auto simp: column_def split: if_splits)
    have "x = 0" if "x \<in> set theta1" for x
    proof -
      from that t1 obtain row where "row \<in> set solution" "x = row ! 0"
        by auto
      then show ?thesis
        using rows [of row] by simp
    qed
    moreover have "x = 0" if "x \<in> set theta2" for x
    proof -
      from that t2 obtain row where "row \<in> set solution" "x = row ! 2"
        by auto
      then show ?thesis
        using rows [of row] by simp
    qed
    ultimately show ?thesis
      using r by blast
  qed
  then show ?thesis
    using d by blast
qed

theorem rest_is_fixed_point_witness:
  "derivatives \<lparr>m1 = 1, m2 = 1, L1 = 1, L2 = 1, g = 981 / 100\<rparr> [0, 0, 0, 0] 0 = Inr [0, 0, 0, 0]
   \<and> map_sum id r_theta1
        (simulate euler \<lparr>m1 = 1, m2 = 1, L1 = 1, L2 = 1, g = 981 / 100\<rparr> [0, 0, 0, 0] 3 2)
      = Inr [0, 0]
   \<and> map_sum id r_theta2
        (simulate euler \<lparr>m1 = 1, m2 = 1, L1 = 1, L2 = 1, g = 981 / 100\<rparr> [0, 0, 0, 0] 3 2)
      = Inr [0, 0]"
  using rest_is_fixed_point [of "\<lparr>m1 = 1, m2 = 1, L1 = 1, L2 = 1, g = 981 / 100\<rparr>" 0 euler 3 2]
    euler_keeps_rest simulate_rest_3_2
  by (simp del: derivatives.simps)

section \<open>Mirror symmetry\<close>

lemma derivatives_odd4:
  "derivatives self [- theta1, - omega1, - theta2, - omega2] t =
     map_sum id (map uminus) (derivatives self [theta1, omega1, theta2, omega2] t)"
proof (cases "L1 self = 0")
  case True
  then show ?thesis by (simp add: Let_def)
next
  case False
  define delta where "delta = theta2 - theta1"
  define den1 where "den1 = (m1 self + m2 self) * L1 self - m2 self * L1 self * (cos delta)\<^sup>2"
  define den2 where "den2 = (L2 self / L1 self) * den1"
  have neg_delta: "- delta = - theta2 - - theta1"
    by (simp add: delta_def)
  have den1': "den1 = (m1 self + m2 self) * L1 self - m2 self * L1 self * (cos (- delta))\<^sup>2"
    by (simp add: den1_def)
  have pos: "derivatives self [theta1, omega1, theta2, omega2] t =
           Inr [omega1,
                (- m2 self * L1 self * omega1\<^sup>2 * sin delta * cos delta
                 - m2 self * g self * sin theta2 * cos delta
                 - m2 self * L2 self * omega2\<^sup>2 * sin delta
                 - (m1 self + m2 self) * g self * sin theta1) / clamp den1,
                omega2,
                (m2 self * L2 self * omega2\<^sup>2 * sin delta * cos delta
                 + (m1 self + m2 self) * g self * sin theta1 * cos delta
                 + (m1 self + m2 self) * L1 self * omega1\<^sup>2 * sin delta
                 - (m1 self + m2 self) * g self * sin theta2) / clamp den2]"
    using False delta_def den1_def den2_def by (rule derivatives_unfold)
  have neg: "derivatives self [- theta1, - omega1, - theta2, - omega2] t =
           Inr [- omega1,
                (- m2 self * L1 self * (- omega1)\<^sup>2 * sin (- delta) * cos (- delta)
                 - m2 self * g self * sin (- theta2) * cos (- delta)
                 - m2 self * L2 self * (- omega2)\<^sup>2 * sin (- delta)
                 - (m1 self + m2 self) * g self * sin (- theta1)) / clamp den1,
                - omega2,
                (m2 self * L2 self * (- omega2)\<^sup>2 * sin (- delta) * cos (- delta)
                 + (m1 self + m2 self) * g self * sin (- theta1) * cos (- delta)
                 + (m1 self + m2 self) * L1 self * (- omega1)\<^sup>2 * sin (- delta)
                 - (m1 self + m2 self) * g self * sin (- theta2)) / clamp den2]"
    using False neg_delta den1' den2_def by (rule derivatives_unfold)
  have n1: "- m2 self * L1 self * (- omega1)\<^sup>2 * sin (- delta) * cos (- delta)
                 - m2 self * g self * sin (- theta2) * cos (- delta)
                 - m2 self * L2 self * (- omega2)\<^sup>2 * sin (- delta)
                 - (m1 self + m2 self) * g self * sin (- theta1)
          = - (- m2 self * L1 self * omega1\<^sup>2 * sin delta * cos delta
                 - m2 self * g self * sin theta2 * cos delta
                 - m2 self * L2 self * omega2\<^sup>2 * sin delta
                 - (m1 self + m2 self) * g self * sin theta1)"
    by (simp add: algebra_simps)
  have n2: "m2 self * L2 self * (- omega2)\<^sup>2 * sin (- delta) * cos (- delta)
                 + (m1 self + m2 self) * g self * sin (- theta1) * cos (- delta)
                 + (m1 self + m2 self) * L1 self * (- omega1)\<^sup>2 * sin (- delta)
                 - (m1 self + m2 self) * g self * sin (- theta2)
          = - (m2 self * L2 self * omega2\<^sup>2 * sin delta * cos delta
                 + (m1 self + m2 self) * g self * sin theta1 * cos delta
                 + (m1 self + m2 self) * L1 self * omega1\<^sup>2 * sin delta
                 - (m1 self + m2 self) * g self * sin theta2)"
    by (simp add: algebra_simps)
  show ?thesis
    unfolding pos neg n1 n2
    by (simp only: map_sum.simps list.map id_apply minus_divide_left)
qed

lemma derivatives_odd:
  "derivatives self (map uminus y) s = map_sum id (map uminus) (derivatives self y s)"
proof (induction self y s rule: derivatives.induct)
  case (1 self theta1 omega1 theta2 omega2 t)
  show ?case
    using derivatives_odd4 [of self theta1 omega1 theta2 omega2 t]
    by (simp only: list.map)
qed simp_all

lemma column_uminus:
  "column (map (map uminus) a) k = map_sum id (map uminus) (column a k)"
  by (simp add: column_def)

lemma calculate_energy_rows:
  assumes "\<forall>row \<in> set a. 3 < length row"
  shows "calculate_energy self a =
     Inr (map (\<lambda>row.
        (0.5 * m1 self * (L1 self * row ! 1)\<^sup>2
         + 0.5 * m2 self * ((L1 self * row ! 1)\<^sup>2 + (L2 self * row ! 3)\<^sup>2
             + 2 * L1 self * L2 self * row ! 1 * row ! 3 * cos (row ! 0 - row ! 2)))
        + (m1 self * g self * (- L1 self * cos (row ! 0))
           + m2 self * g self * (- L1 self * cos (row ! 0) - L2 self * cos (row ! 2)))) a)"
proof -
  from assms have c: "column a 0 = Inr (map (\<lambda>row. row ! 0) a)"
    "column a 1 = Inr (map (\<lambda>row. row ! 1) a)"
    "column a 2 = Inr (map (\<lambda>row. row ! 2) a)"
    "column a 3 = Inr (map (\<lambda>row. row ! 3) a)"
    by (auto simp: column_def)
  show ?thesis
    unfolding calculate_energy_def c and_then_Inr Let_def vec_defs
    by (simp add: zip_map_map zip_same_conv_map)
qed

lemma cos_diff_uminus: "cos (- a - - b) = cos (a - b)" for a b :: real
proof -
  have "- a - - b = - (a - b)"
    by simp
  then show ?thesis
    by (simp only: cos_minus)
qed

lemma calculate_energy_uminus:
  "calculate_energy self (map (map uminus) a) = calculate_energy self a"
proof (cases "\<forall>row \<in> set a. 3 < length row")
  case True
  then have neg: "\<forall>row \<in> set (map (map uminus) a). 3 < length row"
    by simp
  have nth: "map uminus row ! 0 = - (row ! 0)" "map uminus row ! 1 = - (row ! 1)"
    "map uminus row ! 2 = - (row ! 2)" "map uminus row ! 3 = - (row ! 3)"
    if "row \<in> set a" for row :: "real list"
  proof -
    from True that have "3 < length row"
      by blast
    then have "0 < length row" "1 < length row" "2 < length row" "3 < length row"
      by auto
    then show "map uminus row ! 0 = - (row ! 0)" "map uminus row ! 1 = - (row ! 1)"
      "map uminus row ! 2 = - (row ! 2)" "map uminus row ! 3 = - (row ! 3)"
      by (simp_all only: nth_map)
  qed
  show ?thesis
    unfolding calculate_energy_rows [OF True] calculate_energy_rows [OF neg] map_map comp_def
    by (rule arg_cong [where f = Inr], rule map_cong [OF refl])
      (simp only: nth cos_diff_uminus cos_minus power2_minus mult_minus_right mult_minus_left
        minus_minus)
next
  case False
  then have "column a 3 = Inl IndexError"
    by (simp add: column_def)
  then show ?thesis
    unfolding calculate_energy_def column_uminus
    by (simp add: and_then_def split: sum.splits)
qed


lemma simulate_mirror:
  assumes "mirrors odeint"
  shows "simulate odeint self (map uminus initial_state) duration dt =
           map_sum id mirror (simulate odeint self initial_state duration dt)"
proof (cases "arange 0 duration dt")
  case (Inl e)
  then show ?thesis
    by (simp add: simulate_def)
next
  case (Inr t)
  have m: "odeint (derivatives self) (map uminus initial_state) t =
      map_sum id (map (map uminus)) (odeint (derivatives self) initial_state t)"
    using assms derivatives_odd unfolding mirrors_def by blast
  show ?thesis
  proof (cases "odeint (derivatives self) initial_state t")
    case (Inl e)
    then show ?thesis
      using Inr m by (simp add: simulate_def)
  next
    case solution: (Inr solution)
    show ?thesis
    proof (cases "column solution 0")
      case (Inl e)
      then show ?thesis
        using Inr m solution by (simp add: simulate_def column_uminus)
    next
      case theta1: (Inr theta1)
      show ?thesis
      proof (cases "column solution 2")
        case (Inl e)
        then show ?thesis
          using Inr m solution theta1 by (simp add: simulate_def column_uminus)
      next
        case theta2: (Inr theta2)
        have l: "length theta1 = length theta2"
          using column_length [OF theta1] column_length [OF theta2] by simp
        have x2: "map2 (\<lambda>x y. x + y) (map (\<lambda>x. L1 self * x) (map sin (map uminus theta1)))
                     (map (\<lambda>x. L2 self * x) (map sin (map uminus theta2)))
                = map uminus (map2 (\<lambda>x y. x + y) (map (\<lambda>x. L1 self * x) (map sin theta1))
                     (map (\<lambda>x. L2 self * x) (map sin theta2)))"
          by (auto simp: zip_map_map)
        show ?thesis
        proof (cases "calculate_energy self solution")
          case (Inl e)
          then show ?thesis
            using Inr m solution theta1 theta2
            by (simp add: simulate_def column_uminus calculate_energy_uminus)
        next
          case energy: (Inr energy)
          show ?thesis
            using Inr m solution theta1 theta2 energy x2
            by (simp add: simulate_def column_uminus calculate_energy_uminus mirror_def vec_defs
                comp_def Let_def)
        qed
      qed
    qed
  qed
qed


lemma euler_rows_mirror:
  assumes "\<forall>y s. func (map uminus y) s = map_sum id (map uminus) (func y s)"
  shows "euler_rows func (map uminus y) t0 ts =
           map_sum id (map (map uminus)) (euler_rows func y t0 ts)"
proof (induction ts arbitrary: y t0)
  case Nil
  then show ?case by simp
next
  case (Cons t1 ts)
  show ?case
  proof (cases "func y t0")
    case (Inl e)
    then show ?thesis
      using assms by simp
  next
    case (Inr dydt)
    have step: "map2 (\<lambda>a b. a + (t1 - t0) * b) (map uminus y) (map uminus dydt) =
        map uminus (map2 (\<lambda>a b. a + (t1 - t0) * b) y dydt)"
      by (auto simp: zip_map_map)
    have f: "func (map uminus y) t0 = Inr (map uminus dydt)"
      using assms Inr by simp
    show ?thesis
      unfolding euler_rows.simps f Inr and_then_Inr Let_def step Cons.IH
      by (cases "euler_rows func (map2 (\<lambda>a b. a + (t1 - t0) * b) y dydt) t1 ts") simp_all
  qed
qed

lemma euler_mirrors: "mirrors euler"
  unfolding mirrors_def
proof (intro allI impI)
  fix func :: "real list \<Rightarrow> real \<Rightarrow> error + real list" and y0 t
  assume f: "\<forall>y s. func (map uminus y) s = map_sum id (map uminus) (func y s)"
  show "euler func (map uminus y0) t = map_sum id (map (map uminus)) (euler func y0 t)"
  proof (cases t)
    case Nil
    then show ?thesis by simp
  next
    case (Cons t0 ts)
    have "euler_rows func (map uminus y0) t0 ts =
        map_sum id (map (map uminus)) (euler_rows func y0 t0 ts)"
      using f by (rule euler_rows_mirror)
    then show ?thesis
      using Cons by (cases "euler_rows func y0 t0 ts") simp_all
  qed
qed

text \<open>
  C7. Negating all four components of the state negates the derivative vector
  componentwise (and the function raises for the one state exactly when it raises for the
  other). Hence, with a solver that maps the negated initial state of an odd derivative
  function to the negated solution, the runs from \<open>[theta, 0, theta, 0]\<close> and from
  \<open>[-theta, 0, -theta, 0]\<close> are sign-mirrors at every sample: \<open>theta1\<close>, \<open>theta2\<close>, \<open>x1\<close> and
  \<open>x2\<close> are negated, and the times, \<open>y1\<close>, \<open>y2\<close> and the energy are the same. This holds for
  all parameters, so in particular for \<open>m1 = m2\<close> and \<open>L1 = L2\<close>.
\<close>

theorem sign_mirror:
  "derivatives self [- theta1, - omega1, - theta2, - omega2] t =
     map_sum id (map uminus) (derivatives self [theta1, omega1, theta2, omega2] t)
   \<and> (mirrors odeint \<longrightarrow>
        simulate odeint self [- theta, 0, - theta, 0] duration dt =
          map_sum id mirror (simulate odeint self [theta, 0, theta, 0] duration dt))"
proof -
  have "simulate odeint self (map uminus [theta, 0, theta, 0]) duration dt =
          map_sum id mirror (simulate odeint self [theta, 0, theta, 0] duration dt)"
    if "mirrors odeint"
    using that by (rule simulate_mirror)
  then show ?thesis
    using derivatives_odd4 [of self theta1 omega1 theta2 omega2 t] by simp
qed

lemma derivatives_inverted:
  "L1 self \<noteq> 0 \<Longrightarrow> derivatives self [pi, 0, pi, 0] t = Inr [0, 0, 0, 0]"
  by (simp add: Let_def)

lemma simulate_inverted_3_2:
  "simulate euler \<lparr>m1 = 1, m2 = 1, L1 = 1, L2 = 1, g = 981 / 100\<rparr> [pi, 0, pi, 0] 3 2 =
     Inr \<lparr>r_time = [0, 2], r_theta1 = [pi, pi], r_theta2 = [pi, pi],
          r_x1 = [0, 0], r_y1 = [1, 1], r_x2 = [0, 0], r_y2 = [2, 2],
          r_energy = [2943 / 100, 2943 / 100], r_dt = 2, r_L1 = 1, r_L2 = 1\<rparr>"
proof -
  have s: "euler (derivatives \<lparr>m1 = 1, m2 = 1, L1 = 1, L2 = 1, g = 981 / 100\<rparr>) [pi, 0, pi, 0] [0, 2]
             = Inr [[pi, 0, pi, 0], [pi, 0, pi, 0]]"
    by (simp add: derivatives_inverted del: derivatives.simps)
  have c: "column [[pi, 0, pi, 0], [pi, 0, pi, 0]] 0 = Inr [pi, pi]"
    "column [[pi, 0, pi, 0], [pi, 0, pi, 0]] 1 = Inr [0, 0]"
    "column [[pi, 0, pi, 0], [pi, 0, pi, 0]] 2 = Inr [pi, pi]"
    "column [[pi, 0, pi, 0], [pi, 0, pi, 0]] 3 = Inr [0, 0]"
    by (simp_all add: column_def)
  have e: "calculate_energy \<lparr>m1 = 1, m2 = 1, L1 = 1, L2 = 1, g = 981 / 100\<rparr>
             [[pi, 0, pi, 0], [pi, 0, pi, 0]] = Inr [2943 / 100, 2943 / 100]"
    unfolding calculate_energy_def c and_then_Inr
    by (simp add: vec_defs)
  show ?thesis
    unfolding simulate_def arange_3_2 and_then_Inr s c e Let_def
    by (simp add: vec_defs)
qed

theorem sign_mirror_witness:
  "simulate euler \<lparr>m1 = 1, m2 = 1, L1 = 1, L2 = 1, g = 981 / 100\<rparr> [- pi, 0, - pi, 0] 3 2 =
     Inr \<lparr>r_time = [0, 2], r_theta1 = [- pi, - pi], r_theta2 = [- pi, - pi],
          r_x1 = [0, 0], r_y1 = [1, 1], r_x2 = [0, 0], r_y2 = [2, 2],
          r_energy = [2943 / 100, 2943 / 100], r_dt = 2, r_L1 = 1, r_L2 = 1\<rparr>
   \<and> derivatives \<lparr>m1 = 1, m2 = 1, L1 = 1, L2 = 1, g = 981 / 100\<rparr> [- pi, - 1, - pi, - 1] 0
      = map_sum id (map uminus)
          (derivatives \<lparr>m1 = 1, m2 = 1, L1 = 1, L2 = 1, g = 981 / 100\<rparr> [pi, 1, pi, 1] 0)"
  using sign_mirror [of "\<lparr>m1 = 1, m2 = 1, L1 = 1, L2 = 1, g = 981 / 100\<rparr>" pi 1 pi 1 0 euler pi 3 2]
    euler_mirrors simulate_inverted_3_2
  by (simp add: mirror_def del: derivatives.simps)

section \<open>Arguments of the driver\<close>

lemma simulate_with_solution:
  assumes "arange 0 duration dt = Inr t"
    and "odeint (derivatives self) initial_state t = Inr solution"
    and "\<forall>row \<in> set solution. length row = 4"
  shows "\<exists>r. simulate odeint self initial_state duration dt = Inr r \<and> r_time r = t"
proof -
  from assms(3) have w: "\<forall>row \<in> set solution. 3 < length row"
    by simp
  then have c: "column solution 0 = Inr (map (\<lambda>row. row ! 0) solution)"
    "column solution 2 = Inr (map (\<lambda>row. row ! 2) solution)"
    by (auto simp: column_def)
  show ?thesis
    unfolding simulate_def assms(1,2) and_then_Inr c calculate_energy_rows [OF w] Let_def
    by simp
qed

text \<open>
  C3, as the code has it. The driver checks none of its arguments and has no
  \<^verbatim>\<open>InvalidParameter\<close> error: for a step \<open>dt\<close> other than zero, whatever the signs of \<open>m1\<close>,
  \<open>m2\<close>, \<open>L1\<close>, \<open>L2\<close>, \<open>dt\<close> and the duration, it builds the sample times, hands them to the
  solver, and returns a trajectory over these times whenever the solver returns an array
  of states; when the solver raises, the driver raises the same exception.
\<close>

theorem simulate_checks_nothing:
  assumes "dt \<noteq> 0"
  shows "\<exists>t. arange 0 duration dt = Inr t
     \<and> (\<forall>solution. odeint (derivatives self) initial_state t = Inr solution
            \<and> (\<forall>row \<in> set solution. length row = 4)
          \<longrightarrow> (\<exists>r. simulate odeint self initial_state duration dt = Inr r \<and> r_time r = t))
     \<and> (\<forall>e. odeint (derivatives self) initial_state t = Inl e
          \<longrightarrow> simulate odeint self initial_state duration dt = Inl e)"
proof -
  obtain t where t: "arange 0 duration dt = Inr t"
    using assms by (simp add: arange_def)
  have "\<exists>r. simulate odeint self initial_state duration dt = Inr r \<and> r_time r = t"
    if "odeint (derivatives self) initial_state t = Inr solution"
      and "\<forall>row \<in> set solution. length row = 4" for solution
    using t that by (rule simulate_with_solution)
  moreover have "simulate odeint self initial_state duration dt = Inl e"
    if "odeint (derivatives self) initial_state t = Inl e" for e
    using t that by (simp add: simulate_def)
  ultimately show ?thesis
    using t by blast
qed

lemma simulate_rest_massless_3_2:
  "simulate euler \<lparr>m1 = 0, m2 = 1, L1 = 1, L2 = 1, g = 981 / 100\<rparr> [0, 0, 0, 0] 3 2 =
     Inr \<lparr>r_time = [0, 2], r_theta1 = [0, 0], r_theta2 = [0, 0],
          r_x1 = [0, 0], r_y1 = [- 1, - 1], r_x2 = [0, 0], r_y2 = [- 2, - 2],
          r_energy = [- (981 / 50), - (981 / 50)], r_dt = 2, r_L1 = 1, r_L2 = 1\<rparr>"
proof -
  have e: "calculate_energy \<lparr>m1 = 0, m2 = 1, L1 = 1, L2 = 1, g = 981 / 100\<rparr>
             [[0, 0, 0, 0], [0, 0, 0, 0]] = Inr [- (981 / 50), - (981 / 50)]"
    unfolding calculate_energy_def column_rest_2 and_then_Inr
    by (simp add: vec_defs)
  have s: "euler (derivatives \<lparr>m1 = 0, m2 = 1, L1 = 1, L2 = 1, g = 981 / 100\<rparr>) [0, 0, 0, 0] [0, 2]
             = Inr [[0, 0, 0, 0], [0, 0, 0, 0]]"
    by (rule euler_rest_3_2) simp
  show ?thesis
    unfolding simulate_def arange_3_2 and_then_Inr s column_rest_2 e Let_def
    by (simp add: vec_defs)
qed

text \<open>
  C3 as stated requires an error for every non-positive physical constant. With the mass
  \<open>m1 = 0\<close> the driver returns a trajectory.
\<close>

theorem invalid_parameter_counterexample:
  "\<not> 0 < m1 \<lparr>m1 = 0, m2 = 1, L1 = 1, L2 = 1, g = 981 / 100\<rparr>
   \<and> simulate euler \<lparr>m1 = 0, m2 = 1, L1 = 1, L2 = 1, g = 981 / 100\<rparr> [0, 0, 0, 0] 3 2 =
     Inr \<lparr>r_time = [0, 2], r_theta1 = [0, 0], r_theta2 = [0, 0],
          r_x1 = [0, 0], r_y1 = [- 1, - 1], r_x2 = [0, 0], r_y2 = [- 2, - 2],
          r_energy = [- (981 / 50), - (981 / 50)], r_dt = 2, r_L1 = 1, r_L2 = 1\<rparr>"
  using simulate_rest_massless_3_2 by simp

theorem simulate_checks_nothing_witness:
  "map_sum id r_time
     (simulate euler \<lparr>m1 = - 1, m2 = 2, L1 = 1, L2 = 1, g = 981 / 100\<rparr> [0, 0, 0, 0] 3 2) =
   Inr [0, 2]"
  using simulate_checks_nothing [of 2 3 euler "\<lparr>m1 = - 1, m2 = 2, L1 = 1, L2 = 1, g = 981 / 100\<rparr>"
      "[0, 0, 0, 0]"]
    arange_3_2 euler_rest_3_2 [of "\<lparr>m1 = - 1, m2 = 2, L1 = 1, L2 = 1, g = 981 / 100\<rparr>"]
  by (auto simp del: euler.simps derivatives.simps)


section \<open>The routes\<close>

lemma respond_Inr [simp]: "respond (Inr v) = Ok200 v"
  by (simp add: respond_def)

lemma respond_Inl [simp]: "respond (Inl e) = Err400 e"
  by (simp add: respond_def)

lemma degrees_radians [simp]: "degrees (radians x) = x"
  by (simp add: degrees_def radians_def)

text \<open>
  C8. When the fields of the request convert to numbers and the three runs succeed,
  \<^verbatim>\<open>/api/compare\<close> answers with exactly three entries, numbered \<open>0\<close>, \<open>1\<close>, \<open>2\<close>: the runs of
  the driver from \<open>theta1\<close>, \<open>theta1 + perturbation\<close> and \<open>theta1 - perturbation\<close> (angles and
  perturbation given in degrees and converted to radians, the perturbation \<open>0.01\<close> when the
  field is absent, both angular velocities zero), each with its offset converted back to
  degrees: \<open>0\<close>, the perturbation, and minus the perturbation.
\<close>

theorem compare_three_runs:
  assumes "py_float (get data ''theta1'' (JFloat 90)) = Inr theta1_deg"
    and "py_float (get data ''theta2'' (JFloat 90)) = Inr theta2_deg"
    and "py_float (get data ''perturbation'' (JFloat 0.01)) = Inr perturbation_deg"
    and "py_float (get data ''m1'' (JFloat 1)) = Inr v_m1"
    and "py_float (get data ''m2'' (JFloat 1)) = Inr v_m2"
    and "py_float (get data ''L1'' (JFloat 1)) = Inr v_L1"
    and "py_float (get data ''L2'' (JFloat 1)) = Inr v_L2"
    and "py_float (get data ''duration'' (JFloat 10)) = Inr duration"
    and "py_float (get data ''dt'' (JFloat 0.01)) = Inr dt"
    and "simulator = \<lparr>m1 = v_m1, m2 = v_m2, L1 = v_L1, L2 = v_L2, g = 981 / 100\<rparr>"
    and "simulate odeint simulator
           [radians theta1_deg + 0, 0, radians theta2_deg, 0] duration dt = Inr r0"
    and "simulate odeint simulator
           [radians theta1_deg + radians perturbation_deg, 0, radians theta2_deg, 0] duration dt
         = Inr r1"
    and "simulate odeint simulator
           [radians theta1_deg + - radians perturbation_deg, 0, radians theta2_deg, 0] duration dt
         = Inr r2"
  shows "compare_simulations odeint (Object data) =
           Ok200 [\<lparr>sim_id = 0, sim_delta = 0, sim_data = r0\<rparr>,
                  \<lparr>sim_id = 1, sim_delta = perturbation_deg, sim_data = r1\<rparr>,
                  \<lparr>sim_id = 2, sim_delta = - perturbation_deg, sim_data = r2\<rparr>]"
proof -
  have i: "init (Some v_m1) (Some v_m2) (Some v_L1) (Some v_L2) None = simulator"
    by (simp add: init_def assms(10))
  have d: "degrees 0 = 0" "degrees (- radians perturbation_deg) = - perturbation_deg"
    by (simp_all add: degrees_def radians_def)
  show ?thesis
    unfolding compare_simulations_def body.case assms(1-9) and_then_Inr Let_def i
      run_simulations.simps assms(11-13) d degrees_radians
    by simp
qed


lemma simulate_upright_3_2:
  "simulate euler \<lparr>m1 = 1, m2 = 1, L1 = 1, L2 = 1, g = 981 / 100\<rparr> [pi, 0, 0, 0] 3 2 =
     Inr \<lparr>r_time = [0, 2], r_theta1 = [pi, pi], r_theta2 = [0, 0],
          r_x1 = [0, 0], r_y1 = [1, 1], r_x2 = [0, 0], r_y2 = [0, 0],
          r_energy = [981 / 100, 981 / 100], r_dt = 2, r_L1 = 1, r_L2 = 1\<rparr>"
proof -
  have d: "derivatives \<lparr>m1 = 1, m2 = 1, L1 = 1, L2 = 1, g = 981 / 100\<rparr> [pi, 0, 0, 0] t
             = Inr [0, 0, 0, 0]" for t
    by (simp add: Let_def)
  have s: "euler (derivatives \<lparr>m1 = 1, m2 = 1, L1 = 1, L2 = 1, g = 981 / 100\<rparr>) [pi, 0, 0, 0] [0, 2]
             = Inr [[pi, 0, 0, 0], [pi, 0, 0, 0]]"
    by (simp add: d del: derivatives.simps)
  have c: "column [[pi, 0, 0, 0], [pi, 0, 0, 0]] 0 = Inr [pi, pi]"
    "column [[pi, 0, 0, 0], [pi, 0, 0, 0]] 1 = Inr [0, 0]"
    "column [[pi, 0, 0, 0], [pi, 0, 0, 0]] 2 = Inr [0, 0]"
    "column [[pi, 0, 0, 0], [pi, 0, 0, 0]] 3 = Inr [0, 0]"
    by (simp_all add: column_def)
  have e: "calculate_energy \<lparr>m1 = 1, m2 = 1, L1 = 1, L2 = 1, g = 981 / 100\<rparr>
             [[pi, 0, 0, 0], [pi, 0, 0, 0]] = Inr [981 / 100, 981 / 100]"
    unfolding calculate_energy_def c and_then_Inr
    by (simp add: vec_defs)
  show ?thesis
    unfolding simulate_def arange_3_2 and_then_Inr s c e Let_def
    by (simp add: vec_defs)
qed

lemma simulate_upright_mirror_3_2:
  "simulate euler \<lparr>m1 = 1, m2 = 1, L1 = 1, L2 = 1, g = 981 / 100\<rparr> [- pi, 0, 0, 0] 3 2 =
     Inr \<lparr>r_time = [0, 2], r_theta1 = [- pi, - pi], r_theta2 = [0, 0],
          r_x1 = [0, 0], r_y1 = [1, 1], r_x2 = [0, 0], r_y2 = [0, 0],
          r_energy = [981 / 100, 981 / 100], r_dt = 2, r_L1 = 1, r_L2 = 1\<rparr>"
  using simulate_mirror [OF euler_mirrors,
      of "\<lparr>m1 = 1, m2 = 1, L1 = 1, L2 = 1, g = 981 / 100\<rparr>" "[pi, 0, 0, 0]" 3 2]
  by (simp add: simulate_upright_3_2 mirror_def)

theorem compare_three_runs_witness:
  "compare_simulations euler
     (Object [''theta1'' \<mapsto> JFloat 0, ''theta2'' \<mapsto> JFloat 0, ''perturbation'' \<mapsto> JFloat 180,
              ''duration'' \<mapsto> JFloat 3, ''dt'' \<mapsto> JFloat 2]) =
   Ok200
    [\<lparr>sim_id = 0, sim_delta = 0,
      sim_data = \<lparr>r_time = [0, 2], r_theta1 = [0, 0], r_theta2 = [0, 0],
          r_x1 = [0, 0], r_y1 = [- 1, - 1], r_x2 = [0, 0], r_y2 = [- 2, - 2],
          r_energy = [- (2943 / 100), - (2943 / 100)], r_dt = 2, r_L1 = 1, r_L2 = 1\<rparr>\<rparr>,
     \<lparr>sim_id = 1, sim_delta = 180,
      sim_data = \<lparr>r_time = [0, 2], r_theta1 = [pi, pi], r_theta2 = [0, 0],
          r_x1 = [0, 0], r_y1 = [1, 1], r_x2 = [0, 0], r_y2 = [0, 0],
          r_energy = [981 / 100, 981 / 100], r_dt = 2, r_L1 = 1, r_L2 = 1\<rparr>\<rparr>,
     \<lparr>sim_id = 2, sim_delta = - 180,
      sim_data = \<lparr>r_time = [0, 2], r_theta1 = [- pi, - pi], r_theta2 = [0, 0],
          r_x1 = [0, 0], r_y1 = [1, 1], r_x2 = [0, 0], r_y2 = [0, 0],
          r_energy = [981 / 100, 981 / 100], r_dt = 2, r_L1 = 1, r_L2 = 1\<rparr>\<rparr>]"
proof -
  have r: "radians 0 = 0" "radians 180 = pi"
    by (simp_all add: radians_def)
  show ?thesis
    by (rule compare_three_runs [where ?theta1_deg.0 = 0 and ?theta2_deg.0 = 0
          and perturbation_deg = 180 and ?v_m1.0 = 1 and ?v_m2.0 = 1 and ?v_L1.0 = 1
          and ?v_L2.0 = 1
          and duration = 3 and dt = 2, OF _ _ _ _ _ _ _ _ _ refl])
      (simp_all add: get_def r simulate_rest_3_2 simulate_upright_3_2
        simulate_upright_mirror_3_2)
qed

text \<open>
  C10. \<^verbatim>\<open>/api/simulate\<close> builds its simulator without passing \<open>g\<close>, so the constructor's
  default \<open>9.81\<close> is the gravitational constant of every simulation it runs; the route
  reads no field \<^verbatim>\<open>'g'\<close>, so setting, changing or removing that field of the request leaves
  the answer unchanged.
\<close>

theorem simulate_route_gravity:
  assumes "py_float (get data ''theta1'' (JFloat 90)) = Inr theta1_deg"
    and "py_float (get data ''theta2'' (JFloat 90)) = Inr theta2_deg"
    and "py_float (get data ''omega1'' (JFloat 0)) = Inr omega1"
    and "py_float (get data ''omega2'' (JFloat 0)) = Inr omega2"
    and "py_float (get data ''m1'' (JFloat 1)) = Inr v_m1"
    and "py_float (get data ''m2'' (JFloat 1)) = Inr v_m2"
    and "py_float (get data ''L1'' (JFloat 1)) = Inr v_L1"
    and "py_float (get data ''L2'' (JFloat 1)) = Inr v_L2"
    and "py_float (get data ''duration'' (JFloat 10)) = Inr duration"
    and "py_float (get data ''dt'' (JFloat 0.01)) = Inr dt"
  shows "simulate_route odeint (Object data) =
           respond (simulate odeint \<lparr>m1 = v_m1, m2 = v_m2, L1 = v_L1, L2 = v_L2, g = 981 / 100\<rparr>
             [radians theta1_deg, omega1, radians theta2_deg, omega2] duration dt)
     \<and> simulate_route odeint (Object (data(''g'' := v))) = simulate_route odeint (Object data)
     \<and> g (init (Some v_m1) (Some v_m2) (Some v_L1) (Some v_L2) None) = 981 / 100"
proof -
  have i: "init (Some v_m1) (Some v_m2) (Some v_L1) (Some v_L2) None =
      \<lparr>m1 = v_m1, m2 = v_m2, L1 = v_L1, L2 = v_L2, g = 981 / 100\<rparr>"
    by (simp add: init_def)
  have a: "simulate_route odeint (Object data) =
           respond (simulate odeint \<lparr>m1 = v_m1, m2 = v_m2, L1 = v_L1, L2 = v_L2, g = 981 / 100\<rparr>
             [radians theta1_deg, omega1, radians theta2_deg, omega2] duration dt)"
    unfolding simulate_route_def body.case assms and_then_Inr Let_def i ..
  have k: "get (data(''g'' := v)) ''theta1'' = get data ''theta1''"
    "get (data(''g'' := v)) ''theta2'' = get data ''theta2''"
    "get (data(''g'' := v)) ''omega1'' = get data ''omega1''"
    "get (data(''g'' := v)) ''omega2'' = get data ''omega2''"
    "get (data(''g'' := v)) ''m1'' = get data ''m1''"
    "get (data(''g'' := v)) ''m2'' = get data ''m2''"
    "get (data(''g'' := v)) ''L1'' = get data ''L1''"
    "get (data(''g'' := v)) ''L2'' = get data ''L2''"
    "get (data(''g'' := v)) ''duration'' = get data ''duration''"
    "get (data(''g'' := v)) ''dt'' = get data ''dt''"
    by (simp_all add: get_def fun_eq_iff)
  have b: "simulate_route odeint (Object (data(''g'' := v))) = simulate_route odeint (Object data)"
    unfolding simulate_route_def body.case k ..
  show ?thesis
    using a b i by simp
qed

theorem simulate_route_gravity_witness:
  "simulate_route euler
     (Object [''theta1'' \<mapsto> JFloat 0, ''theta2'' \<mapsto> JFloat 0, ''duration'' \<mapsto> JFloat 3,
              ''dt'' \<mapsto> JFloat 2, ''g'' \<mapsto> JFloat (162 / 100)]) =
   Ok200 \<lparr>r_time = [0, 2], r_theta1 = [0, 0], r_theta2 = [0, 0],
          r_x1 = [0, 0], r_y1 = [- 1, - 1], r_x2 = [0, 0], r_y2 = [- 2, - 2],
          r_energy = [- (2943 / 100), - (2943 / 100)], r_dt = 2, r_L1 = 1, r_L2 = 1\<rparr>"
proof -
  have "simulate_route euler
     (Object [''theta1'' \<mapsto> JFloat 0, ''theta2'' \<mapsto> JFloat 0, ''duration'' \<mapsto> JFloat 3,
              ''dt'' \<mapsto> JFloat 2, ''g'' \<mapsto> JFloat (162 / 100)]) =
    respond (simulate euler \<lparr>m1 = 1, m2 = 1, L1 = 1, L2 = 1, g = 981 / 100\<rparr>
             [radians 0, 0, radians 0, 0] 3 2)"
    by (rule simulate_route_gravity [THEN conjunct1]) (simp_all add: get_def)
  then show ?thesis
    by (simp add: radians_def simulate_rest_3_2)
qed


section \<open>Energy at the horizontal start\<close>

text \<open>
  With both rods horizontal and at rest (\<open>theta1 = theta2 = 90\<close> degrees), the energy of the
  first sample is exactly zero in real arithmetic, for all parameters: a drift relative to
  the initial energy has no value there.
\<close>

lemma energy_horizontal_rest:
  "calculate_energy self [[radians 90, 0, radians 90, 0]] = Inr [0]"
proof -
  have r: "radians 90 = pi / 2"
    by (simp add: radians_def)
  have c: "column [[pi / 2, 0, pi / 2, 0]] 0 = Inr [pi / 2]"
    "column [[pi / 2, 0, pi / 2, 0]] 1 = Inr [0]"
    "column [[pi / 2, 0, pi / 2, 0]] 2 = Inr [pi / 2]"
    "column [[pi / 2, 0, pi / 2, 0]] 3 = Inr [0]"
    by (simp_all add: column_def)
  show ?thesis
    unfolding r calculate_energy_def c and_then_Inr
    by (simp add: vec_defs)
qed

end
